theory Spec2Isabelle
  imports Main "HOL-Library.Multiset"
begin

section \<open>The schema of the complaint portal\<close>

text \<open>
  The migration creates three enumerations and six tables, enables row-level security on
  each table, and declares the policies. A UUID is carried in its canonical text form, the
  form in which the client receives it and in which \<^verbatim>\<open>::text\<close> renders it; a
  \<^verbatim>\<open>TIMESTAMPTZ\<close> is an integer instant.
\<close>

type_synonym uuid = string
type_synonym timestamptz = int

datatype app_role = Student | Admin
datatype complaint_status = New | In_progress | Resolved | Closed
datatype complaint_priority = Low | Medium | High | Urgent

record auth_users_row =
  au_id :: uuid
  au_raw_user_meta_data :: "(string \<times> string) list"

record user_roles_row =
  ur_id :: uuid
  ur_user_id :: uuid
  ur_role :: app_role
  ur_created_at :: timestamptz

record profiles_row =
  pf_id :: uuid
  pf_full_name :: "string option"
  pf_avatar_url :: "string option"
  pf_phone :: "string option"
  pf_department :: "string option"
  pf_batch :: "string option"
  pf_created_at :: timestamptz
  pf_updated_at :: timestamptz

record complaints_row =
  c_id :: uuid
  c_user_id :: uuid
  c_title :: string
  c_description :: string
  c_category :: string
  c_status :: complaint_status
  c_priority :: complaint_priority
  c_is_anonymous :: bool
  c_assigned_to :: "uuid option"
  c_upvotes :: int
  c_created_at :: timestamptz
  c_updated_at :: timestamptz

record complaint_attachments_row =
  at_id :: uuid
  at_complaint_id :: uuid
  at_file_name :: string
  at_file_url :: string
  at_file_size :: int
  at_file_type :: string
  at_created_at :: timestamptz

record complaint_status_history_row =
  sh_id :: uuid
  sh_complaint_id :: uuid
  sh_status :: complaint_status
  sh_changed_by :: uuid
  sh_notes :: "string option"
  sh_created_at :: timestamptz

record admin_notes_row =
  an_id :: uuid
  an_complaint_id :: uuid
  an_admin_id :: uuid
  an_note :: string
  an_created_at :: timestamptz

text \<open>A row of \<^verbatim>\<open>storage.objects\<close>: the bucket, the object's path and who wrote it.\<close>

record storage_objects_row =
  so_bucket_id :: string
  so_name :: string
  so_owner :: "uuid option"

record database =
  auth_users :: "auth_users_row list"
  user_roles :: "user_roles_row list"
  profiles :: "profiles_row list"
  complaints :: "complaints_row list"
  complaint_attachments :: "complaint_attachments_row list"
  complaint_status_history :: "complaint_status_history_row list"
  admin_notes :: "admin_notes_row list"
  storage_objects :: "storage_objects_row list"

definition empty_database :: database where
  "empty_database =
     \<lparr>auth_users = [], user_roles = [], profiles = [], complaints = [],
      complaint_attachments = [], complaint_status_history = [], admin_notes = [],
      storage_objects = []\<rparr>"

text \<open>
  Who runs a statement: the database role and the value of \<^verbatim>\<open>auth.uid()\<close>
  (\<open>None\<close> is SQL's NULL). \<open>Owner\<close> is the role that owns the tables and the
  functions of the migration; row-level security is enabled, not forced, so the owner is
  not subject to the policies. Every policy is declared \<^verbatim>\<open>TO authenticated\<close>.
\<close>

datatype pg_role = Anon | Authenticated | Owner

record session =
  s_role :: pg_role
  s_uid :: "uuid option"

datatype error =
    Insufficient_privilege
  | Unique_violation
  | Foreign_key_violation
  | Numeric_value_out_of_range
  | Payload_rejected
  | Resource_already_exists

definition sql_exists :: "'a list \<Rightarrow> bool" where
  "sql_exists rows = (rows \<noteq> [])"

definition int4_ok :: "int \<Rightarrow> bool" where
  "int4_ok n = (- 2147483648 \<le> n \<and> n \<le> 2147483647)"

section \<open>The role check and the role table\<close>

text \<open>
  \<^verbatim>\<open>has_role\<close> is \<^verbatim>\<open>SECURITY DEFINER\<close>: whoever invokes it, its body runs as
  the owner. Reading \<^verbatim>\<open>user_roles\<close> as an authenticated role applies the two
  policies of that table (permissive policies are joined by OR), one of which calls
  \<^verbatim>\<open>has_role\<close> again; the two functions are therefore defined together, and the
  termination proof is the fact that the policy evaluation does not recurse.
\<close>

function scan_user_roles :: "session \<Rightarrow> database \<Rightarrow> user_roles_row list"
  and has_role :: "session \<Rightarrow> database \<Rightarrow> uuid option \<Rightarrow> app_role \<Rightarrow> bool"
where
  "scan_user_roles s db =
     (if s_role s = Owner then user_roles db
      else if s_role s = Authenticated then
        filter (\<lambda>row. True \<or> has_role s db (s_uid s) Admin) (user_roles db)
      else [])"
| "has_role invoker db user_id_arg role_arg =
     sql_exists
       (filter (\<lambda>row. Some (ur_user_id row) = user_id_arg \<and> ur_role row = role_arg)
          (scan_user_roles (invoker\<lparr>s_role := Owner\<rparr>) db))"
  by pat_completeness auto
termination
  by (relation "measure (\<lambda>x. case x of
          Inl (s, db) \<Rightarrow> (if s_role s = Owner then 0 else 2)
        | Inr _ \<Rightarrow> 1)") auto

definition anyone_can_view_user_roles :: "session \<Rightarrow> bool" where
  "anyone_can_view_user_roles s = (s_role s = Authenticated \<and> True)"

definition only_admins_can_manage_roles :: "session \<Rightarrow> database \<Rightarrow> bool" where
  "only_admins_can_manage_roles s db =
     (s_role s = Authenticated \<and> has_role s db (s_uid s) Admin)"

definition role_pair :: "user_roles_row \<Rightarrow> uuid \<times> app_role" where
  "role_pair row = (ur_user_id row, ur_role row)"

text \<open>
  The constraints of \<^verbatim>\<open>user_roles\<close>: the primary key, \<^verbatim>\<open>UNIQUE(user_id, role)\<close>
  and the foreign key to \<^verbatim>\<open>auth.users\<close>.
\<close>

definition user_roles_constraints :: "database \<Rightarrow> user_roles_row list \<Rightarrow> error option" where
  "user_roles_constraints db rows =
     (if \<not> distinct (map ur_id rows) \<or> \<not> distinct (map role_pair rows)
      then Some Unique_violation
      else if \<exists>row \<in> set rows. ur_user_id row \<notin> set (map au_id (auth_users db))
      then Some Foreign_key_violation
      else None)"

definition insert_user_roles :: "session \<Rightarrow> database \<Rightarrow> user_roles_row \<Rightarrow> error + database" where
  "insert_user_roles s db row =
     (if s_role s \<noteq> Owner \<and> \<not> only_admins_can_manage_roles s db
      then Inl Insufficient_privilege
      else case user_roles_constraints db (user_roles db @ [row]) of
        Some e \<Rightarrow> Inl e
      | None \<Rightarrow> Inr (db\<lparr>user_roles := user_roles db @ [row]\<rparr>))"

definition update_user_roles ::
  "session \<Rightarrow> database \<Rightarrow> (user_roles_row \<Rightarrow> bool) \<Rightarrow> (user_roles_row \<Rightarrow> user_roles_row)
    \<Rightarrow> error + database" where
  "update_user_roles s db where_clause set_clause =
     (let hit = (\<lambda>row. where_clause row \<and>
                   (s_role s = Owner \<or> only_admins_can_manage_roles s db));
          rows = map (\<lambda>row. if hit row then set_clause row else row) (user_roles db)
      in case user_roles_constraints db rows of
        Some e \<Rightarrow> Inl e
      | None \<Rightarrow> Inr (db\<lparr>user_roles := rows\<rparr>))"

definition delete_user_roles ::
  "session \<Rightarrow> database \<Rightarrow> (user_roles_row \<Rightarrow> bool) \<Rightarrow> error + database" where
  "delete_user_roles s db where_clause =
     (let hit = (\<lambda>row. where_clause row \<and>
                   (s_role s = Owner \<or> only_admins_can_manage_roles s db))
      in Inr (db\<lparr>user_roles := filter (\<lambda>row. \<not> hit row) (user_roles db)\<rparr>))"

section \<open>Registration\<close>

text \<open>
  \<^verbatim>\<open>handle_new_user\<close> runs \<^verbatim>\<open>AFTER INSERT ON auth.users FOR EACH ROW\<close>, as the
  owner. The generated key and \<^verbatim>\<open>now()\<close> are given by the caller. An error raised
  by either insert leaves the function, and with it the statement that fired the trigger.
\<close>

definition json_text :: "(string \<times> string) list \<Rightarrow> string \<Rightarrow> string option" where
  "json_text obj key = map_of obj key"

definition insert_profiles_row :: "database \<Rightarrow> profiles_row \<Rightarrow> error + database" where
  "insert_profiles_row db row =
     (if pf_id row \<in> set (map pf_id (profiles db)) then Inl Unique_violation
      else if pf_id row \<notin> set (map au_id (auth_users db)) then Inl Foreign_key_violation
      else Inr (db\<lparr>profiles := profiles db @ [row]\<rparr>))"

definition handle_new_user ::
  "uuid \<Rightarrow> timestamptz \<Rightarrow> auth_users_row \<Rightarrow> database \<Rightarrow> error + database" where
  "handle_new_user generated now new db =
     (case insert_profiles_row db
             \<lparr>pf_id = au_id new,
              pf_full_name = json_text (au_raw_user_meta_data new) ''full_name'',
              pf_avatar_url = None, pf_phone = None, pf_department = None, pf_batch = None,
              pf_created_at = now, pf_updated_at = now\<rparr> of
        Inl e \<Rightarrow> Inl e
      | Inr db1 \<Rightarrow>
          insert_user_roles \<lparr>s_role = Owner, s_uid = None\<rparr> db1
            \<lparr>ur_id = generated, ur_user_id = au_id new, ur_role = Student,
             ur_created_at = now\<rparr>)"

text \<open>
  Creating an account: the insert into \<^verbatim>\<open>auth.users\<close> and the trigger are one
  statement. Its result is either an error, with the database as it was, or the database
  after the account row, the profile row and the role row.
\<close>

definition create_account ::
  "uuid \<Rightarrow> timestamptz \<Rightarrow> auth_users_row \<Rightarrow> database \<Rightarrow> error + database" where
  "create_account generated now new db =
     (if au_id new \<in> set (map au_id (auth_users db)) then Inl Unique_violation
      else handle_new_user generated now new (db\<lparr>auth_users := auth_users db @ [new]\<rparr>))"

section \<open>Complaints\<close>

definition scan_complaints :: "session \<Rightarrow> database \<Rightarrow> complaints_row list" where
  \<comment> \<open>"Anyone can view complaints": \<^verbatim>\<open>FOR SELECT TO authenticated USING (true)\<close>\<close>
  "scan_complaints s db =
     (if s_role s = Owner then complaints db
      else if s_role s = Authenticated then filter (\<lambda>row. True) (complaints db)
      else [])"

definition users_can_create_complaints :: "session \<Rightarrow> complaints_row \<Rightarrow> bool" where
  "users_can_create_complaints s row =
     (s_role s = Authenticated \<and> s_uid s = Some (c_user_id row))"

definition users_can_update_own_complaints :: "session \<Rightarrow> complaints_row \<Rightarrow> bool" where
  "users_can_update_own_complaints s row =
     (s_role s = Authenticated \<and> s_uid s = Some (c_user_id row))"

definition admins_can_update_any_complaint :: "session \<Rightarrow> database \<Rightarrow> bool" where
  "admins_can_update_any_complaint s db =
     (s_role s = Authenticated \<and> has_role s db (s_uid s) Admin)"

text \<open>
  The constraints of \<^verbatim>\<open>complaints\<close> on a new content of the table: the range of
  the \<^verbatim>\<open>INT\<close> column, the primary key, the two foreign keys to
  \<^verbatim>\<open>auth.users\<close>, and the foreign keys of the three tables that reference a
  complaint.
\<close>

definition complaints_constraints :: "database \<Rightarrow> complaints_row list \<Rightarrow> error option" where
  "complaints_constraints db rows =
     (if \<exists>row \<in> set rows. \<not> int4_ok (c_upvotes row) then Some Numeric_value_out_of_range
      else if \<not> distinct (map c_id rows) then Some Unique_violation
      else if (\<exists>row \<in> set rows.
                 c_user_id row \<notin> set (map au_id (auth_users db)) \<or>
                 (case c_assigned_to row of
                    None \<Rightarrow> False
                  | Some a \<Rightarrow> a \<notin> set (map au_id (auth_users db)))) \<or>
              (\<exists>a \<in> set (complaint_attachments db). at_complaint_id a \<notin> set (map c_id rows)) \<or>
              (\<exists>h \<in> set (complaint_status_history db).
                 sh_complaint_id h \<notin> set (map c_id rows)) \<or>
              (\<exists>n \<in> set (admin_notes db). an_complaint_id n \<notin> set (map c_id rows))
      then Some Foreign_key_violation
      else None)"

definition insert_complaints :: "session \<Rightarrow> database \<Rightarrow> complaints_row \<Rightarrow> error + database" where
  "insert_complaints s db row =
     (if \<not> int4_ok (c_upvotes row) then Inl Numeric_value_out_of_range
      else if s_role s \<noteq> Owner \<and> \<not> users_can_create_complaints s row
      then Inl Insufficient_privilege
      else case complaints_constraints db (complaints db @ [row]) of
        Some e \<Rightarrow> Inl e
      | None \<Rightarrow> Inr (db\<lparr>complaints := complaints db @ [row]\<rparr>))"

definition update_updated_at_column :: "timestamptz \<Rightarrow> complaints_row \<Rightarrow> complaints_row" where
  "update_updated_at_column now new = new\<lparr>c_updated_at := now\<rparr>"

text \<open>
  \<^verbatim>\<open>UPDATE complaints SET ... WHERE ...\<close>. The two update policies have a
  \<^verbatim>\<open>USING\<close> clause and no \<^verbatim>\<open>WITH CHECK\<close>, so each \<^verbatim>\<open>USING\<close>
  expression is also the check of the new row; the rows a statement may touch are those
  that satisfy one of the \<^verbatim>\<open>USING\<close> expressions, and each new row has to satisfy
  one of the checks. The \<^verbatim>\<open>BEFORE UPDATE\<close> trigger sets \<^verbatim>\<open>updated_at\<close>.
\<close>

definition update_complaints ::
  "session \<Rightarrow> timestamptz \<Rightarrow> database \<Rightarrow> (complaints_row \<Rightarrow> bool)
    \<Rightarrow> (complaints_row \<Rightarrow> complaints_row) \<Rightarrow> error + database" where
  "update_complaints s now db where_clause set_clause =
     (let policy = (\<lambda>row. users_can_update_own_complaints s row \<or>
                      admins_can_update_any_complaint s db);
          hit = (\<lambda>row. where_clause row \<and> (s_role s = Owner \<or> policy row));
          new = (\<lambda>row. update_updated_at_column now (set_clause row));
          rows = map (\<lambda>row. if hit row then new row else row) (complaints db)
      in if s_role s \<noteq> Owner \<and> (\<exists>row \<in> set (complaints db). hit row \<and> \<not> policy (new row))
         then Inl Insufficient_privilege
         else case complaints_constraints db rows of
           Some e \<Rightarrow> Inl e
         | None \<Rightarrow> Inr (db\<lparr>complaints := rows\<rparr>))"

section \<open>Attachments, status history and admin notes\<close>

definition users_can_add_attachments_to_own_complaints ::
  "session \<Rightarrow> database \<Rightarrow> complaint_attachments_row \<Rightarrow> bool" where
  "users_can_add_attachments_to_own_complaints s db row =
     (s_role s = Authenticated \<and>
      sql_exists
        (filter (\<lambda>c. c_id c = at_complaint_id row \<and> Some (c_user_id c) = s_uid s)
           (scan_complaints s db)))"

definition insert_complaint_attachments ::
  "session \<Rightarrow> database \<Rightarrow> complaint_attachments_row \<Rightarrow> error + database" where
  "insert_complaint_attachments s db row =
     (if \<not> int4_ok (at_file_size row) then Inl Numeric_value_out_of_range
      else if s_role s \<noteq> Owner \<and> \<not> users_can_add_attachments_to_own_complaints s db row
      then Inl Insufficient_privilege
      else if at_id row \<in> set (map at_id (complaint_attachments db)) then Inl Unique_violation
      else if at_complaint_id row \<notin> set (map c_id (complaints db))
      then Inl Foreign_key_violation
      else Inr (db\<lparr>complaint_attachments := complaint_attachments db @ [row]\<rparr>))"

definition admins_can_add_status_history :: "session \<Rightarrow> database \<Rightarrow> bool" where
  "admins_can_add_status_history s db =
     (s_role s = Authenticated \<and> has_role s db (s_uid s) Admin)"

definition insert_complaint_status_history ::
  "session \<Rightarrow> database \<Rightarrow> complaint_status_history_row \<Rightarrow> error + database" where
  "insert_complaint_status_history s db row =
     (if s_role s \<noteq> Owner \<and> \<not> admins_can_add_status_history s db
      then Inl Insufficient_privilege
      else if sh_id row \<in> set (map sh_id (complaint_status_history db))
      then Inl Unique_violation
      else if sh_complaint_id row \<notin> set (map c_id (complaints db)) \<or>
              sh_changed_by row \<notin> set (map au_id (auth_users db))
      then Inl Foreign_key_violation
      else Inr (db\<lparr>complaint_status_history := complaint_status_history db @ [row]\<rparr>))"

definition only_admins_can_view_admin_notes :: "session \<Rightarrow> database \<Rightarrow> bool" where
  "only_admins_can_view_admin_notes s db =
     (s_role s = Authenticated \<and> has_role s db (s_uid s) Admin)"

definition only_admins_can_create_admin_notes ::
  "session \<Rightarrow> database \<Rightarrow> admin_notes_row \<Rightarrow> bool" where
  "only_admins_can_create_admin_notes s db row =
     (s_role s = Authenticated \<and>
      has_role s db (s_uid s) Admin \<and> s_uid s = Some (an_admin_id row))"

definition scan_admin_notes :: "session \<Rightarrow> database \<Rightarrow> admin_notes_row list" where
  "scan_admin_notes s db =
     (if s_role s = Owner then admin_notes db
      else filter (\<lambda>row. only_admins_can_view_admin_notes s db) (admin_notes db))"

definition insert_admin_notes :: "session \<Rightarrow> database \<Rightarrow> admin_notes_row \<Rightarrow> error + database" where
  "insert_admin_notes s db row =
     (if s_role s \<noteq> Owner \<and> \<not> only_admins_can_create_admin_notes s db row
      then Inl Insufficient_privilege
      else if an_id row \<in> set (map an_id (admin_notes db)) then Inl Unique_violation
      else if an_complaint_id row \<notin> set (map c_id (complaints db)) \<or>
              an_admin_id row \<notin> set (map au_id (auth_users db))
      then Inl Foreign_key_violation
      else Inr (db\<lparr>admin_notes := admin_notes db @ [row]\<rparr>))"

section \<open>The attachment bucket\<close>

fun split_on :: "char \<Rightarrow> string \<Rightarrow> string list" where
  "split_on sep [] = [[]]"
| "split_on sep (c # cs) =
     (if c = sep then [] # split_on sep cs
      else case split_on sep cs of
        [] \<Rightarrow> [[c]]
      | part # parts \<Rightarrow> (c # part) # parts)"

definition foldername :: "string \<Rightarrow> string list" where
  \<comment> \<open>\<^verbatim>\<open>storage.foldername\<close>: the segments of a path but the last.\<close>
  "foldername name = butlast (split_on CHR ''/''  name)"

definition array_first :: "'a list \<Rightarrow> 'a option" where
  \<comment> \<open>\<^verbatim>\<open>(...)[1]\<close>: NULL on an array with no first element.\<close>
  "array_first xs = (case xs of [] \<Rightarrow> None | x # _ \<Rightarrow> Some x)"

definition authenticated_users_can_upload_attachments ::
  "session \<Rightarrow> storage_objects_row \<Rightarrow> bool" where
  "authenticated_users_can_upload_attachments s obj =
     (s_role s = Authenticated \<and> so_bucket_id obj = ''complaint-attachments'')"

definition authenticated_users_can_view_attachments ::
  "session \<Rightarrow> storage_objects_row \<Rightarrow> bool" where
  "authenticated_users_can_view_attachments s obj =
     (s_role s = Authenticated \<and> so_bucket_id obj = ''complaint-attachments'')"

definition users_can_delete_own_attachments :: "session \<Rightarrow> storage_objects_row \<Rightarrow> bool" where
  "users_can_delete_own_attachments s obj =
     (s_role s = Authenticated \<and> so_bucket_id obj = ''complaint-attachments'' \<and>
      (case (s_uid s, array_first (foldername (so_name obj))) of
         (Some uid, Some folder) \<Rightarrow> uid = folder
       | _ \<Rightarrow> False))"

record js_file =
  f_name :: string
  f_type :: string
  f_size :: nat

text \<open>
  What the code reads from outside: the values of successive \<^verbatim>\<open>Date.now()\<close>,
  \<^verbatim>\<open>gen_random_uuid()\<close> and \<^verbatim>\<open>now()\<close> calls, the size and type constraint
  the blob store enforces, and the project's URL.
\<close>

record env =
  date_now :: "nat \<Rightarrow> nat"
  gen_random_uuid :: "nat \<Rightarrow> uuid"
  pg_now :: "nat \<Rightarrow> timestamptz"
  bucket_accepts :: "js_file \<Rightarrow> bool"
  supabase_url :: string

text \<open>
  \<^verbatim>\<open>storage.from(bucket).upload(path, file)\<close>, without \<^verbatim>\<open>upsert\<close>: the blob
  store's constraint, the insert policy of \<^verbatim>\<open>storage.objects\<close>, and no second object
  at one path of a bucket.
\<close>

definition storage_upload ::
  "env \<Rightarrow> session \<Rightarrow> database \<Rightarrow> string \<Rightarrow> string \<Rightarrow> js_file \<Rightarrow> error + database" where
  "storage_upload e s db bucket path f =
     (let obj = \<lparr>so_bucket_id = bucket, so_name = path, so_owner = s_uid s\<rparr>
      in if \<not> bucket_accepts e f then Inl Payload_rejected
         else if s_role s \<noteq> Owner \<and> \<not> authenticated_users_can_upload_attachments s obj
         then Inl Insufficient_privilege
         else if \<exists>o' \<in> set (storage_objects db). so_bucket_id o' = bucket \<and> so_name o' = path
         then Inl Resource_already_exists
         else Inr (db\<lparr>storage_objects := storage_objects db @ [obj]\<rparr>))"

text \<open>
  \<^verbatim>\<open>storage.from(bucket).remove([path])\<close>: the object goes when the delete policy
  admits the session; otherwise nothing is deleted.
\<close>

definition storage_remove :: "session \<Rightarrow> database \<Rightarrow> string \<Rightarrow> string \<Rightarrow> database" where
  "storage_remove s db bucket path =
     db\<lparr>storage_objects :=
          filter (\<lambda>obj. \<not> (so_bucket_id obj = bucket \<and> so_name obj = path \<and>
                            (s_role s = Owner \<or> users_can_delete_own_attachments s obj)))
            (storage_objects db)\<rparr>"

definition getPublicUrl :: "env \<Rightarrow> string \<Rightarrow> string \<Rightarrow> string" where
  "getPublicUrl e bucket path =
     supabase_url e @ ''/storage/v1/object/public/'' @ bucket @ ''/'' @ path"

section \<open>The client\<close>

fun digits :: "nat \<Rightarrow> string" where
  "digits n =
     (if n < 10 then [''0123456789'' ! n]
      else digits (n div 10) @ [''0123456789'' ! (n mod 10)])"

declare digits.simps [simp del]

record user =
  u_id :: uuid

record form =
  title :: string
  description :: string
  category :: string
  priority :: complaint_priority
  isAnonymous :: bool
  files :: "js_file list"

datatype toast = Success | Error error

definition client_session :: "user \<Rightarrow> session" where
  "client_session u = \<lparr>s_role = Authenticated, s_uid = Some (u_id u)\<rparr>"

text \<open>
  The loop of \<^verbatim>\<open>handleSubmit\<close> over \<^verbatim>\<open>files\<close>, from the file of index \<open>i\<close>:
  \<open>Some\<close> error is the \<^verbatim>\<open>throw uploadError\<close>, with the database as it is at that
  moment. The result of the insert into \<^verbatim>\<open>complaint_attachments\<close> is awaited and
  dropped: on an error the database is as the upload left it.
\<close>

fun upload_files ::
  "env \<Rightarrow> session \<Rightarrow> complaints_row \<Rightarrow> nat \<Rightarrow> js_file list \<Rightarrow> database
    \<Rightarrow> error option \<times> database" where
  "upload_files e s complaint i [] db = (None, db)"
| "upload_files e s complaint i (f # fs) db =
     (let fileExt = last (split_on CHR ''.'' (f_name f));
          fileName = c_id complaint @ ''/'' @ digits (date_now e i) @ ''.'' @ fileExt
      in case storage_upload e s db ''complaint-attachments'' fileName f of
        Inl uploadError \<Rightarrow> (Some uploadError, db)
      | Inr db1 \<Rightarrow>
          (let publicUrl = getPublicUrl e ''complaint-attachments'' fileName;
               db2 = (case insert_complaint_attachments s db1
                             \<lparr>at_id = gen_random_uuid e (Suc i),
                              at_complaint_id = c_id complaint,
                              at_file_name = f_name f,
                              at_file_url = publicUrl,
                              at_file_size = int (f_size f),
                              at_file_type = f_type f,
                              at_created_at = pg_now e (Suc i)\<rparr> of
                        Inl _ \<Rightarrow> db1
                      | Inr db' \<Rightarrow> db')
           in upload_files e s complaint (Suc i) fs db2))"

definition handleSubmit ::
  "env \<Rightarrow> user option \<Rightarrow> form \<Rightarrow> database \<Rightarrow> toast option \<times> database" where
  "handleSubmit e usr fm db =
     (case usr of
        None \<Rightarrow> (None, db)
      | Some u \<Rightarrow>
          (let complaint =
                 \<lparr>c_id = gen_random_uuid e 0, c_user_id = u_id u, c_title = title fm,
                  c_description = description fm, c_category = category fm,
                  c_status = New, c_priority = priority fm,
                  c_is_anonymous = isAnonymous fm, c_assigned_to = None, c_upvotes = 0,
                  c_created_at = pg_now e 0, c_updated_at = pg_now e 0\<rparr>
           in case insert_complaints (client_session u) db complaint of
             Inl complaintError \<Rightarrow> (Some (Error complaintError), db)
           | Inr db1 \<Rightarrow>
               if length (files fm) > 0 then
                 (case upload_files e (client_session u) complaint 0 (files fm) db1 of
                    (Some uploadError, db2) \<Rightarrow> (Some (Error uploadError), db2)
                  | (None, db2) \<Rightarrow> (Some Success, db2))
               else (Some Success, db1)))"

text \<open>
  The query of the dashboard. \<^verbatim>\<open>isAdmin\<close> comes from the \<^verbatim>\<open>useAuth\<close> hook
  and is a parameter here. The request is one \<^verbatim>\<open>SELECT\<close> with the filter and the
  order the builder collected.
\<close>

definition order_desc :: "('a \<Rightarrow> int) \<Rightarrow> 'a list \<Rightarrow> 'a list" where
  "order_desc key rows = rev (sort_key key rows)"

definition queryFn :: "user option \<Rightarrow> bool \<Rightarrow> database \<Rightarrow> complaints_row list" where
  "queryFn usr isAdmin db =
     (case usr of
        None \<Rightarrow> []
      | Some u \<Rightarrow>
          (let query = order_desc c_created_at (scan_complaints (client_session u) db);
               query = (if \<not> isAdmin then filter (\<lambda>row. c_user_id row = u_id u) query
                        else query)
           in query))"

section \<open>Names for the rows the code builds, and the states it can reach\<close>

definition bootstrap_profile :: "timestamptz \<Rightarrow> auth_users_row \<Rightarrow> profiles_row" where
  \<comment> \<open>the row of the first insert of \<^verbatim>\<open>handle_new_user\<close>\<close>
  "bootstrap_profile now new =
     \<lparr>pf_id = au_id new,
      pf_full_name = json_text (au_raw_user_meta_data new) ''full_name'',
      pf_avatar_url = None, pf_phone = None, pf_department = None, pf_batch = None,
      pf_created_at = now, pf_updated_at = now\<rparr>"

definition bootstrap_role :: "uuid \<Rightarrow> timestamptz \<Rightarrow> auth_users_row \<Rightarrow> user_roles_row" where
  \<comment> \<open>the row of the second insert of \<^verbatim>\<open>handle_new_user\<close>\<close>
  "bootstrap_role generated now new =
     \<lparr>ur_id = generated, ur_user_id = au_id new, ur_role = Student, ur_created_at = now\<rparr>"

definition submitted_complaint :: "env \<Rightarrow> user \<Rightarrow> form \<Rightarrow> complaints_row" where
  \<comment> \<open>the row \<^verbatim>\<open>handleSubmit\<close> inserts, with the defaults of the table\<close>
  "submitted_complaint e u fm =
     \<lparr>c_id = gen_random_uuid e 0, c_user_id = u_id u, c_title = title fm,
      c_description = description fm, c_category = category fm,
      c_status = New, c_priority = priority fm,
      c_is_anonymous = isAnonymous fm, c_assigned_to = None, c_upvotes = 0,
      c_created_at = pg_now e 0, c_updated_at = pg_now e 0\<rparr>"

definition attachment_fileName :: "env \<Rightarrow> complaints_row \<Rightarrow> nat \<Rightarrow> js_file \<Rightarrow> string" where
  \<comment> \<open>\<^verbatim>\<open>fileName\<close> of the loop, for the file of index \<open>i\<close>\<close>
  "attachment_fileName e complaint i f =
     c_id complaint @ ''/'' @ digits (date_now e i) @ ''.'' @ last (split_on CHR ''.'' (f_name f))"

definition attachment_object :: "env \<Rightarrow> session \<Rightarrow> complaints_row \<Rightarrow> nat \<Rightarrow> js_file
    \<Rightarrow> storage_objects_row" where
  "attachment_object e s complaint i f =
     \<lparr>so_bucket_id = ''complaint-attachments'',
      so_name = attachment_fileName e complaint i f, so_owner = s_uid s\<rparr>"

definition attachment_row :: "env \<Rightarrow> complaints_row \<Rightarrow> nat \<Rightarrow> js_file
    \<Rightarrow> complaint_attachments_row" where
  \<comment> \<open>the row the loop inserts for the file of index \<open>i\<close>\<close>
  "attachment_row e complaint i f =
     \<lparr>at_id = gen_random_uuid e (Suc i),
      at_complaint_id = c_id complaint,
      at_file_name = f_name f,
      at_file_url =
        getPublicUrl e ''complaint-attachments'' (attachment_fileName e complaint i f),
      at_file_size = int (f_size f),
      at_file_type = f_type f,
      at_created_at = pg_now e (Suc i)\<rparr>"

definition object_at :: "database \<Rightarrow> string \<Rightarrow> string \<Rightarrow> bool" where
  "object_at db bucket path =
     (\<exists>obj \<in> set (storage_objects db). so_bucket_id obj = bucket \<and> so_name obj = path)"

text \<open>
  The states of the database: the empty tables the migration creates, and what the
  statements above make of them.
\<close>

inductive reachable :: "database \<Rightarrow> bool" where
  initial: "reachable empty_database"
| account: "reachable db \<Longrightarrow> create_account generated now new db = Inr db' \<Longrightarrow> reachable db'"
| role_insert: "reachable db \<Longrightarrow> insert_user_roles s db role_row = Inr db' \<Longrightarrow> reachable db'"
| role_update:
    "reachable db \<Longrightarrow> update_user_roles s db role_where role_set = Inr db' \<Longrightarrow> reachable db'"
| role_delete: "reachable db \<Longrightarrow> delete_user_roles s db role_where = Inr db' \<Longrightarrow> reachable db'"
| complaint_insert:
    "reachable db \<Longrightarrow> insert_complaints s db complaint = Inr db' \<Longrightarrow> reachable db'"
| complaint_update:
    "reachable db \<Longrightarrow> update_complaints s now db complaint_where complaint_set = Inr db'
      \<Longrightarrow> reachable db'"
| attachment_insert:
    "reachable db \<Longrightarrow> insert_complaint_attachments s db attachment = Inr db' \<Longrightarrow> reachable db'"
| history_insert:
    "reachable db \<Longrightarrow> insert_complaint_status_history s db history = Inr db' \<Longrightarrow> reachable db'"
| note_insert: "reachable db \<Longrightarrow> insert_admin_notes s db admin_note = Inr db' \<Longrightarrow> reachable db'"
| object_upload:
    "reachable db \<Longrightarrow> storage_upload e s db bucket path f = Inr db' \<Longrightarrow> reachable db'"
| object_remove: "reachable db \<Longrightarrow> reachable (storage_remove s db bucket path)"

definition roles_unique :: "database \<Rightarrow> bool" where
  "roles_unique db = distinct (map role_pair (user_roles db))"

section \<open>A small portal\<close>

text \<open>
  Three accounts: the students Sam and Tia, and Mia, who is also an admin. Sam signed up
  with a full name, Tia and Mia without.
\<close>

definition sam :: auth_users_row where
  "sam = \<lparr>au_id = ''11111111-1111-4111-8111-111111111111'',
          au_raw_user_meta_data = [(''full_name'', ''Sam Student'')]\<rparr>"

definition tia :: auth_users_row where
  "tia = \<lparr>au_id = ''22222222-2222-4222-8222-222222222222'', au_raw_user_meta_data = []\<rparr>"

definition mia :: auth_users_row where
  "mia = \<lparr>au_id = ''99999999-9999-4999-8999-999999999999'', au_raw_user_meta_data = []\<rparr>"

definition as_user :: "auth_users_row \<Rightarrow> session" where
  "as_user a = \<lparr>s_role = Authenticated, s_uid = Some (au_id a)\<rparr>"

definition sam_signed_up :: database where
  "sam_signed_up =
     empty_database
       \<lparr>auth_users := [sam],
        user_roles := [bootstrap_role ''a0000000-0000-4000-8000-000000000001'' 100 sam],
        profiles := [bootstrap_profile 100 sam]\<rparr>"

definition broken_ac :: complaints_row where
  "broken_ac =
     \<lparr>c_id = ''c0000000-0000-4000-8000-000000000001'', c_user_id = au_id sam,
      c_title = ''Broken AC'', c_description = ''The AC in lab 2 is broken'',
      c_category = ''Facilities'', c_status = New, c_priority = High,
      c_is_anonymous = False, c_assigned_to = None, c_upvotes = 0,
      c_created_at = 1000, c_updated_at = 1000\<rparr>"

definition wifi_down :: complaints_row where
  "wifi_down =
     \<lparr>c_id = ''c0000000-0000-4000-8000-000000000002'', c_user_id = au_id tia,
      c_title = ''Wifi down'', c_description = ''No wifi in the hostel'',
      c_category = ''Infrastructure'', c_status = New, c_priority = Medium,
      c_is_anonymous = True, c_assigned_to = None, c_upvotes = 0,
      c_created_at = 2000, c_updated_at = 2000\<rparr>"

definition portal :: database where
  "portal =
     empty_database
       \<lparr>auth_users := [sam, tia, mia],
        user_roles :=
          [bootstrap_role ''a0000000-0000-4000-8000-000000000001'' 100 sam,
           bootstrap_role ''a0000000-0000-4000-8000-000000000002'' 200 tia,
           bootstrap_role ''a0000000-0000-4000-8000-000000000003'' 300 mia,
           \<lparr>ur_id = ''a0000000-0000-4000-8000-000000000004'', ur_user_id = au_id mia,
            ur_role = Admin, ur_created_at = 400\<rparr>],
        profiles := [bootstrap_profile 100 sam, bootstrap_profile 200 tia,
                     bootstrap_profile 300 mia],
        complaints := [broken_ac, wifi_down]\<rparr>"

definition in_progress_by_mia :: complaint_status_history_row where
  "in_progress_by_mia =
     \<lparr>sh_id = ''b0000000-0000-4000-8000-000000000001'', sh_complaint_id = c_id broken_ac,
      sh_status = In_progress, sh_changed_by = au_id mia, sh_notes = None,
      sh_created_at = 3000\<rparr>"

definition note_by_mia :: admin_notes_row where
  "note_by_mia =
     \<lparr>an_id = ''d0000000-0000-4000-8000-000000000001'', an_complaint_id = c_id broken_ac,
      an_admin_id = au_id mia, an_note = ''call the vendor'', an_created_at = 3000\<rparr>"

text \<open>
  Sam's browser: the clock, the identifiers the database generates, a blob store that
  takes files of up to 5 GiB, and three files.
\<close>

definition browser :: env where
  "browser =
     \<lparr>date_now = (\<lambda>i. 1700000000000 + i),
      gen_random_uuid = (\<lambda>i. ''e0000000-0000-4000-8000-00000000000'' @ digits i),
      pg_now = (\<lambda>i. 5000 + int i),
      bucket_accepts = (\<lambda>f. f_size f \<le> 5368709120),
      supabase_url = ''https://portal.supabase.co''\<rparr>"

definition archive_pdf :: js_file where
  "archive_pdf = \<lparr>f_name = ''lab.archive.pdf'', f_type = ''application/pdf'', f_size = 2147483648\<rparr>"

definition photo_png :: js_file where
  "photo_png = \<lparr>f_name = ''ac.png'', f_type = ''image/png'', f_size = 204800\<rparr>"

definition huge_png :: js_file where
  "huge_png = \<lparr>f_name = ''huge.png'', f_type = ''image/png'', f_size = 6000000000\<rparr>"

definition sam_form :: "js_file list \<Rightarrow> form" where
  "sam_form fs =
     \<lparr>title = ''Broken AC'', description = ''The AC in lab 2 is broken'',
      category = ''Facilities'', priority = High, isAnonymous = False, files = fs\<rparr>"

definition sam_user :: user where
  "sam_user = \<lparr>u_id = au_id sam\<rparr>"

lemmas portal_defs =
  portal_def empty_database_def sam_def tia_def mia_def
  broken_ac_def wifi_down_def bootstrap_role_def bootstrap_profile_def json_text_def

section \<open>Properties of the role check\<close>

lemma scan_user_roles_Owner: "scan_user_roles (s\<lparr>s_role := Owner\<rparr>) db = user_roles db"
  by simp

lemma has_role_filter:
  "has_role invoker db uid r =
     (filter (\<lambda>row. Some (ur_user_id row) = uid \<and> ur_role row = r) (user_roles db) \<noteq> [])"
  by (simp add: sql_exists_def)

lemma has_role_invoker: "has_role s db uid r = has_role s' db uid r"
  by (simp only: has_role_filter)

declare scan_user_roles.simps [simp del] has_role.simps [simp del]

text \<open>
  C2. For every account \<open>a\<close> and role \<open>r\<close>, \<^verbatim>\<open>has_role(a, r)\<close> is true exactly when
  \<^verbatim>\<open>user_roles\<close> holds a row with the pair \<open>(a, r)\<close>. The table it reads is the stored
  one, whoever invokes it: the policies of \<^verbatim>\<open>user_roles\<close> are not applied to its scan,
  so its value is the same for an invoker who can read no row of the table, and the policy
  that calls it is evaluated without entering that policy again (the function above is
  total).
\<close>

theorem has_role_iff_row:
  "has_role invoker db (Some a) r = ((a, r) \<in> set (map role_pair (user_roles db)))"
proof -
  have "(filter (\<lambda>row. Some (ur_user_id row) = Some a \<and> ur_role row = r) (user_roles db) \<noteq> [])
        = (\<exists>row \<in> set (user_roles db). ur_user_id row = a \<and> ur_role row = r)"
    by (simp add: filter_empty_conv)
  also have "\<dots> = ((a, r) \<in> set (map role_pair (user_roles db)))"
    by (auto simp: role_pair_def image_iff)
  finally show ?thesis
    by (simp only: has_role_filter)
qed

theorem has_role_iff_row_witness:
  "scan_user_roles \<lparr>s_role = Anon, s_uid = None\<rparr>
     (empty_database\<lparr>user_roles :=
        [\<lparr>ur_id = ''r1'', ur_user_id = ''m'', ur_role = Admin, ur_created_at = 0\<rparr>]\<rparr>) = [] \<and>
   has_role \<lparr>s_role = Anon, s_uid = None\<rparr>
     (empty_database\<lparr>user_roles :=
        [\<lparr>ur_id = ''r1'', ur_user_id = ''m'', ur_role = Admin, ur_created_at = 0\<rparr>]\<rparr>)
     (Some ''m'') Admin \<and>
   \<not> has_role \<lparr>s_role = Anon, s_uid = None\<rparr>
     (empty_database\<lparr>user_roles :=
        [\<lparr>ur_id = ''r1'', ur_user_id = ''m'', ur_role = Admin, ur_created_at = 0\<rparr>]\<rparr>)
     (Some ''m'') Student"
  using has_role_iff_row [of "\<lparr>s_role = Anon, s_uid = None\<rparr>"
      "empty_database\<lparr>user_roles :=
        [\<lparr>ur_id = ''r1'', ur_user_id = ''m'', ur_role = Admin, ur_created_at = 0\<rparr>]\<rparr>"
      "''m''" Admin]
    has_role_iff_row [of "\<lparr>s_role = Anon, s_uid = None\<rparr>"
      "empty_database\<lparr>user_roles :=
        [\<lparr>ur_id = ''r1'', ur_user_id = ''m'', ur_role = Admin, ur_created_at = 0\<rparr>]\<rparr>"
      "''m''" Student]
  by (simp add: scan_user_roles.simps role_pair_def empty_database_def)

lemma portal_mia_admin: "has_role s portal (Some (au_id mia)) Admin"
  by (simp add: has_role_filter portal_defs)

lemma portal_sam_no_admin: "\<not> has_role s portal (Some (au_id sam)) Admin"
  by (simp add: has_role_filter portal_defs)

section \<open>Creating complaints\<close>

text \<open>
  C3. For an authenticated actor, an insert into \<^verbatim>\<open>complaints\<close> whose
  \<^verbatim>\<open>user_id\<close> is not the actor's own identifier fails the check of "Users can create
  complaints" and inserts nothing (the error is the policy's whenever the row is otherwise
  well-typed); with \<^verbatim>\<open>user_id\<close> equal to the actor the policy admits the row, and the
  row is inserted when it meets the constraints of the table.
\<close>

theorem complaints_insert_owner_check:
  assumes "s_role s = Authenticated" and "s_uid s = Some actor"
  shows "(c_user_id row \<noteq> actor \<longrightarrow>
            \<not> users_can_create_complaints s row \<and>
            (\<forall>db'. insert_complaints s db row \<noteq> Inr db') \<and>
            (int4_ok (c_upvotes row) \<longrightarrow>
               insert_complaints s db row = Inl Insufficient_privilege)) \<and>
         (c_user_id row = actor \<longrightarrow>
            users_can_create_complaints s row \<and>
            insert_complaints s db row \<noteq> Inl Insufficient_privilege \<and>
            (int4_ok (c_upvotes row) \<and>
             complaints_constraints db (complaints db @ [row]) = None \<longrightarrow>
               insert_complaints s db row = Inr (db\<lparr>complaints := complaints db @ [row]\<rparr>)))"
  using assms
  by (auto simp: insert_complaints_def users_can_create_complaints_def
      complaints_constraints_def split: option.splits if_splits)

theorem complaints_insert_owner_check_witness:
  "insert_complaints (as_user sam) portal
       (broken_ac\<lparr>c_id := ''c0000000-0000-4000-8000-000000000003''\<rparr>) =
     Inr (portal\<lparr>complaints :=
            [broken_ac, wifi_down,
             broken_ac\<lparr>c_id := ''c0000000-0000-4000-8000-000000000003''\<rparr>]\<rparr>) \<and>
   insert_complaints (as_user tia) portal
       (broken_ac\<lparr>c_id := ''c0000000-0000-4000-8000-000000000003''\<rparr>) =
     Inl Insufficient_privilege"
  using
    complaints_insert_owner_check [of "as_user sam" "au_id sam"
      "broken_ac\<lparr>c_id := ''c0000000-0000-4000-8000-000000000003''\<rparr>" portal]
    complaints_insert_owner_check [of "as_user tia" "au_id tia"
      "broken_ac\<lparr>c_id := ''c0000000-0000-4000-8000-000000000003''\<rparr>" portal]
  by (simp add: portal_defs as_user_def int4_ok_def complaints_constraints_def)

section \<open>Status history and admin notes\<close>

text \<open>
  C4. For an actor other than the owner of the tables: one that is not an authenticated
  admin has every insert into \<^verbatim>\<open>complaint_status_history\<close> and into
  \<^verbatim>\<open>admin_notes\<close> rejected by the policy and reads no row of \<^verbatim>\<open>admin_notes\<close>;
  an admin passes the policy of the status history with any row, passes the policy of the
  admin notes exactly when \<^verbatim>\<open>admin_id\<close> is the admin's own identifier, has the row
  inserted when it meets the keys of the table, and reads all admin notes.
\<close>

theorem admin_only_history_and_notes:
  assumes "s_role s \<noteq> Owner"
  shows "(\<not> (s_role s = Authenticated \<and> has_role s db (s_uid s) Admin) \<longrightarrow>
            insert_complaint_status_history s db h = Inl Insufficient_privilege \<and>
            insert_admin_notes s db n = Inl Insufficient_privilege \<and>
            scan_admin_notes s db = []) \<and>
         (s_role s = Authenticated \<and> has_role s db (s_uid s) Admin \<longrightarrow>
            insert_complaint_status_history s db h \<noteq> Inl Insufficient_privilege \<and>
            (sh_id h \<notin> set (map sh_id (complaint_status_history db)) \<and>
             sh_complaint_id h \<in> set (map c_id (complaints db)) \<and>
             sh_changed_by h \<in> set (map au_id (auth_users db)) \<longrightarrow>
               insert_complaint_status_history s db h =
                 Inr (db\<lparr>complaint_status_history := complaint_status_history db @ [h]\<rparr>)) \<and>
            (s_uid s \<noteq> Some (an_admin_id n) \<longrightarrow>
               insert_admin_notes s db n = Inl Insufficient_privilege) \<and>
            (s_uid s = Some (an_admin_id n) \<longrightarrow>
               insert_admin_notes s db n \<noteq> Inl Insufficient_privilege \<and>
               (an_id n \<notin> set (map an_id (admin_notes db)) \<and>
                an_complaint_id n \<in> set (map c_id (complaints db)) \<and>
                an_admin_id n \<in> set (map au_id (auth_users db)) \<longrightarrow>
                  insert_admin_notes s db n =
                    Inr (db\<lparr>admin_notes := admin_notes db @ [n]\<rparr>))) \<and>
            scan_admin_notes s db = admin_notes db)"
  using assms
  by (auto simp: insert_complaint_status_history_def admins_can_add_status_history_def
      insert_admin_notes_def only_admins_can_create_admin_notes_def
      scan_admin_notes_def only_admins_can_view_admin_notes_def)

theorem admin_only_history_and_notes_witness:
  "insert_complaint_status_history (as_user sam) portal in_progress_by_mia =
     Inl Insufficient_privilege \<and>
   insert_admin_notes (as_user sam) portal note_by_mia = Inl Insufficient_privilege \<and>
   scan_admin_notes (as_user sam) portal = [] \<and>
   insert_complaint_status_history (as_user mia) portal in_progress_by_mia =
     Inr (portal\<lparr>complaint_status_history := [in_progress_by_mia]\<rparr>) \<and>
   insert_admin_notes (as_user mia) portal note_by_mia =
     Inr (portal\<lparr>admin_notes := [note_by_mia]\<rparr>) \<and>
   insert_admin_notes (as_user mia) portal (note_by_mia\<lparr>an_admin_id := au_id sam\<rparr>) =
     Inl Insufficient_privilege"
proof -
  have sam_no: "\<not> (s_role (as_user sam) = Authenticated \<and>
                    has_role (as_user sam) portal (s_uid (as_user sam)) Admin)"
    using portal_sam_no_admin by (simp add: as_user_def)
  have mia_yes: "s_role (as_user mia) = Authenticated \<and>
                 has_role (as_user mia) portal (s_uid (as_user mia)) Admin"
    using portal_mia_admin by (simp add: as_user_def)
  have not_owner: "s_role (as_user sam) \<noteq> Owner" "s_role (as_user mia) \<noteq> Owner"
    by (simp_all add: as_user_def)
  note sam_case =
    admin_only_history_and_notes [OF not_owner(1), of portal in_progress_by_mia note_by_mia]
  note mia_case =
    admin_only_history_and_notes [OF not_owner(2), of portal in_progress_by_mia note_by_mia]
  note forged =
    admin_only_history_and_notes [OF not_owner(2), of portal in_progress_by_mia
      "note_by_mia\<lparr>an_admin_id := au_id sam\<rparr>"]
  have keys:
    "sh_id in_progress_by_mia \<notin> set (map sh_id (complaint_status_history portal))"
    "sh_complaint_id in_progress_by_mia \<in> set (map c_id (complaints portal))"
    "sh_changed_by in_progress_by_mia \<in> set (map au_id (auth_users portal))"
    "an_id note_by_mia \<notin> set (map an_id (admin_notes portal))"
    "an_complaint_id note_by_mia \<in> set (map c_id (complaints portal))"
    "an_admin_id note_by_mia \<in> set (map au_id (auth_users portal))"
    "s_uid (as_user mia) = Some (an_admin_id note_by_mia)"
    "s_uid (as_user mia) \<noteq> Some (au_id sam)"
    "complaint_status_history portal = []" "admin_notes portal = []"
    by (simp_all add: portal_defs as_user_def in_progress_by_mia_def note_by_mia_def)
  from sam_case sam_no mia_case forged mia_yes keys show ?thesis by simp
qed

section \<open>One row for a pair of account and role\<close>

lemma distinct_map_filter_le1:
  "distinct (map f xs) \<Longrightarrow> length (filter (\<lambda>x. f x = k) xs) \<le> 1"
proof (induction xs)
  case Nil
  then show ?case by simp
next
  case (Cons x xs)
  show ?case
  proof (cases "f x = k")
    case True
    with Cons.prems have "\<forall>y \<in> set xs. f y \<noteq> k" by (auto simp: image_iff)
    then have "filter (\<lambda>x. f x = k) xs = []" by (simp add: filter_empty_conv)
    with True show ?thesis by simp
  next
    case False
    with Cons show ?thesis by simp
  qed
qed

lemma user_roles_constraints_None:
  "user_roles_constraints db rows = None \<Longrightarrow> distinct (map role_pair rows)"
  by (simp add: user_roles_constraints_def split: if_splits)

lemma insert_user_roles_unique:
  "insert_user_roles s db row = Inr db' \<Longrightarrow> roles_unique db'"
  by (auto simp: insert_user_roles_def roles_unique_def split: if_splits option.splits
      dest: user_roles_constraints_None)

lemma update_user_roles_unique:
  "update_user_roles s db w f = Inr db' \<Longrightarrow> roles_unique db'"
  by (auto simp: update_user_roles_def roles_unique_def Let_def split: option.splits
      dest: user_roles_constraints_None)

lemma delete_user_roles_unique:
  "roles_unique db \<Longrightarrow> delete_user_roles s db w = Inr db' \<Longrightarrow> roles_unique db'"
  by (auto simp: delete_user_roles_def roles_unique_def Let_def distinct_map_filter)

lemma create_account_unique:
  "create_account g now new db = Inr db' \<Longrightarrow> roles_unique db'"
  by (auto simp: create_account_def handle_new_user_def split: if_splits sum.splits
      dest: insert_user_roles_unique)

lemma other_statements_user_roles:
  "insert_complaints s db c = Inr db' \<Longrightarrow> user_roles db' = user_roles db"
  "update_complaints s now db cw cf = Inr db' \<Longrightarrow> user_roles db' = user_roles db"
  "insert_complaint_attachments s db a = Inr db' \<Longrightarrow> user_roles db' = user_roles db"
  "insert_complaint_status_history s db h = Inr db' \<Longrightarrow> user_roles db' = user_roles db"
  "insert_admin_notes s db n = Inr db' \<Longrightarrow> user_roles db' = user_roles db"
  "storage_upload e s db bucket path f = Inr db' \<Longrightarrow> user_roles db' = user_roles db"
  "user_roles (storage_remove s db bucket path) = user_roles db"
  by (auto simp: insert_complaints_def update_complaints_def insert_complaint_attachments_def
      insert_complaint_status_history_def insert_admin_notes_def storage_upload_def
      storage_remove_def Let_def split: if_splits option.splits)

lemma reachable_roles_unique: "reachable db \<Longrightarrow> roles_unique db"
proof (induction rule: reachable.induct)
  case initial
  then show ?case by (simp add: roles_unique_def empty_database_def)
next
  case (account db generated now new db')
  then show ?case by (auto dest: create_account_unique)
next
  case (role_insert db s role_row db')
  then show ?case by (auto dest: insert_user_roles_unique)
next
  case (role_update db s role_where role_set db')
  then show ?case by (auto dest: update_user_roles_unique)
next
  case (role_delete db s role_where db')
  then show ?case by (auto dest: delete_user_roles_unique)
qed (auto simp: roles_unique_def other_statements_user_roles)

text \<open>
  C5. In every state the statements can reach from the empty tables, \<^verbatim>\<open>user_roles\<close>
  holds at most one row for a pair of account and role, and an insert of a row whose pair
  is already in the table fails: with the policy's error or with the unique violation.
\<close>

theorem user_roles_pair_unique:
  assumes "reachable db"
  shows "length (filter (\<lambda>row. ur_user_id row = a \<and> ur_role row = r) (user_roles db)) \<le> 1 \<and>
         (role_pair row \<in> set (map role_pair (user_roles db)) \<longrightarrow>
            insert_user_roles s db row = Inl Insufficient_privilege \<or>
            insert_user_roles s db row = Inl Unique_violation)"
proof -
  have "distinct (map role_pair (user_roles db))"
    using reachable_roles_unique [OF assms] by (simp add: roles_unique_def)
  then have "length (filter (\<lambda>row. role_pair row = (a, r)) (user_roles db)) \<le> 1"
    by (rule distinct_map_filter_le1)
  then have one:
    "length (filter (\<lambda>row. ur_user_id row = a \<and> ur_role row = r) (user_roles db)) \<le> 1"
    by (simp add: role_pair_def)
  have dup: "role_pair row \<in> set (map role_pair (user_roles db)) \<longrightarrow>
            insert_user_roles s db row = Inl Insufficient_privilege \<or>
            insert_user_roles s db row = Inl Unique_violation"
    by (auto simp: insert_user_roles_def user_roles_constraints_def)
  from one dup show ?thesis by blast
qed

theorem user_roles_pair_unique_witness:
  "reachable sam_signed_up \<and>
   length (filter (\<lambda>row. ur_user_id row = au_id sam \<and> ur_role row = Student)
             (user_roles sam_signed_up)) \<le> 1 \<and>
   insert_user_roles \<lparr>s_role = Owner, s_uid = None\<rparr> sam_signed_up
       (bootstrap_role ''a0000000-0000-4000-8000-000000000009'' 500 sam) =
     Inl Unique_violation"
proof -
  have "create_account ''a0000000-0000-4000-8000-000000000001'' 100 sam empty_database =
          Inr sam_signed_up"
    by (simp add: create_account_def handle_new_user_def insert_profiles_row_def
        insert_user_roles_def user_roles_constraints_def role_pair_def
        sam_signed_up_def portal_defs)
  then have r: "reachable sam_signed_up"
    by (rule reachable.account [OF reachable.initial])
  have mem: "role_pair (bootstrap_role ''a0000000-0000-4000-8000-000000000009'' 500 sam)
               \<in> set (map role_pair (user_roles sam_signed_up))"
    by (simp add: role_pair_def
        sam_signed_up_def portal_defs)
  have ne: "insert_user_roles \<lparr>s_role = Owner, s_uid = None\<rparr> sam_signed_up
              (bootstrap_role ''a0000000-0000-4000-8000-000000000009'' 500 sam)
            \<noteq> Inl Insufficient_privilege"
    by (simp add: insert_user_roles_def user_roles_constraints_def role_pair_def
        sam_signed_up_def portal_defs)
  from user_roles_pair_unique [OF r, of "au_id sam" Student
      "bootstrap_role ''a0000000-0000-4000-8000-000000000009'' 500 sam"
      "\<lparr>s_role = Owner, s_uid = None\<rparr>"] r mem ne
  show ?thesis
    by blast
qed

section \<open>Signing up\<close>

lemma handle_new_user_rows:
  "handle_new_user g now new db =
     (case insert_profiles_row db (bootstrap_profile now new) of
        Inl e \<Rightarrow> Inl e
      | Inr db1 \<Rightarrow> insert_user_roles \<lparr>s_role = Owner, s_uid = None\<rparr> db1 (bootstrap_role g now new))"
  unfolding handle_new_user_def bootstrap_profile_def bootstrap_role_def by (rule refl)

lemma filter_append_fresh:
  "\<forall>x \<in> set xs. \<not> P x \<Longrightarrow> P y \<Longrightarrow> length (filter P (xs @ [y])) = 1"
  by (simp add: filter_empty_conv)

text \<open>
  C6. Creating an account is one statement whose result is either an error, with no new
  state, or the database with exactly three more rows: the account, one profile whose full
  name is the \<^verbatim>\<open>full_name\<close> of the signup metadata (NULL when the metadata has none),
  and one role row with the role student. The new state then holds exactly one profile of
  the account and exactly one student row of the account. When the insert of the profile
  or the insert of the role row fails, the creation of the account fails.
\<close>

theorem create_account_bootstrap:
  "(create_account g now new db = Inr db' \<longrightarrow>
      db' = db\<lparr>auth_users := auth_users db @ [new],
               profiles := profiles db @ [bootstrap_profile now new],
               user_roles := user_roles db @ [bootstrap_role g now new]\<rparr> \<and>
      pf_full_name (bootstrap_profile now new) = map_of (au_raw_user_meta_data new) ''full_name'' \<and>
      ur_role (bootstrap_role g now new) = Student \<and>
      length (filter (\<lambda>p. pf_id p = au_id new) (profiles db')) = 1 \<and>
      length (filter (\<lambda>row. ur_user_id row = au_id new \<and> ur_role row = Student) (user_roles db')) = 1) \<and>
   (isl (insert_profiles_row (db\<lparr>auth_users := auth_users db @ [new]\<rparr>) (bootstrap_profile now new)) \<or>
    isl (insert_user_roles \<lparr>s_role = Owner, s_uid = None\<rparr>
           (db\<lparr>auth_users := auth_users db @ [new],
                profiles := profiles db @ [bootstrap_profile now new]\<rparr>)
           (bootstrap_role g now new)) \<longrightarrow>
    isl (create_account g now new db))"
proof (intro conjI impI)
  assume ok: "create_account g now new db = Inr db'"
  let ?dbA = "db\<lparr>auth_users := auth_users db @ [new]\<rparr>"
  from ok have fresh: "au_id new \<notin> set (map au_id (auth_users db))"
    and h: "handle_new_user g now new ?dbA = Inr db'"
    by (auto simp: create_account_def split: if_splits)
  from h obtain dbP where p: "insert_profiles_row ?dbA (bootstrap_profile now new) = Inr dbP"
    and r: "insert_user_roles \<lparr>s_role = Owner, s_uid = None\<rparr> dbP (bootstrap_role g now new) = Inr db'"
    by (auto simp: handle_new_user_rows split: sum.splits)
  from p have dbP: "dbP = ?dbA\<lparr>profiles := profiles db @ [bootstrap_profile now new]\<rparr>"
    and pfresh: "au_id new \<notin> set (map pf_id (profiles db))"
    by (auto simp: insert_profiles_row_def bootstrap_profile_def split: if_splits)
  from r have c: "user_roles_constraints dbP (user_roles dbP @ [bootstrap_role g now new]) = None"
    and db': "db' = dbP\<lparr>user_roles := user_roles dbP @ [bootstrap_role g now new]\<rparr>"
    by (auto simp: insert_user_roles_def split: option.splits)
  from db' dbP show "db' = db\<lparr>auth_users := auth_users db @ [new],
               profiles := profiles db @ [bootstrap_profile now new],
               user_roles := user_roles db @ [bootstrap_role g now new]\<rparr>"
    by simp
  show "pf_full_name (bootstrap_profile now new) = map_of (au_raw_user_meta_data new) ''full_name''"
    by (simp add: bootstrap_profile_def json_text_def)
  show "ur_role (bootstrap_role g now new) = Student"
    by (simp add: bootstrap_role_def)
  have "length (filter (\<lambda>p. pf_id p = au_id new) (profiles db @ [bootstrap_profile now new])) = 1"
    using pfresh by (intro filter_append_fresh) (auto simp: bootstrap_profile_def image_iff)
  then show "length (filter (\<lambda>p. pf_id p = au_id new) (profiles db')) = 1"
    using db' dbP by simp
  from c have "distinct (map role_pair (user_roles db @ [bootstrap_role g now new]))"
    using dbP by (simp add: user_roles_constraints_def split: if_splits)
  then have "\<forall>row \<in> set (user_roles db). \<not> (ur_user_id row = au_id new \<and> ur_role row = Student)"
    by (auto simp: role_pair_def bootstrap_role_def image_iff)
  then have "length (filter (\<lambda>row. ur_user_id row = au_id new \<and> ur_role row = Student)
                 (user_roles db @ [bootstrap_role g now new])) = 1"
    by (intro filter_append_fresh) (auto simp: bootstrap_role_def)
  then show "length (filter (\<lambda>row. ur_user_id row = au_id new \<and> ur_role row = Student) (user_roles db')) = 1"
    using db' dbP by simp
next
  assume "isl (insert_profiles_row (db\<lparr>auth_users := auth_users db @ [new]\<rparr>) (bootstrap_profile now new)) \<or>
    isl (insert_user_roles \<lparr>s_role = Owner, s_uid = None\<rparr>
           (db\<lparr>auth_users := auth_users db @ [new],
                profiles := profiles db @ [bootstrap_profile now new]\<rparr>)
           (bootstrap_role g now new))"
  then show "isl (create_account g now new db)"
    by (auto simp: create_account_def handle_new_user_rows insert_profiles_row_def
        split: sum.splits if_splits)
qed

theorem create_account_bootstrap_witness:
  "create_account ''a0000000-0000-4000-8000-000000000001'' 100 sam empty_database =
     Inr sam_signed_up \<and>
   pf_full_name (bootstrap_profile 100 sam) = Some ''Sam Student'' \<and>
   pf_full_name (bootstrap_profile 200 tia) = None \<and>
   length (filter (\<lambda>p. pf_id p = au_id sam) (profiles sam_signed_up)) = 1 \<and>
   length (filter (\<lambda>row. ur_user_id row = au_id sam \<and> ur_role row = Student)
             (user_roles sam_signed_up)) = 1 \<and>
   isl (create_account ''a0000000-0000-4000-8000-000000000001'' 200 tia sam_signed_up)"
proof -
  have ok: "create_account ''a0000000-0000-4000-8000-000000000001'' 100 sam empty_database =
              Inr sam_signed_up"
    by (simp add: create_account_def handle_new_user_def insert_profiles_row_def
        insert_user_roles_def user_roles_constraints_def role_pair_def
        sam_signed_up_def portal_defs)
  have clash:
    "isl (insert_user_roles \<lparr>s_role = Owner, s_uid = None\<rparr>
            (sam_signed_up\<lparr>auth_users := auth_users sam_signed_up @ [tia],
                           profiles := profiles sam_signed_up @ [bootstrap_profile 200 tia]\<rparr>)
            (bootstrap_role ''a0000000-0000-4000-8000-000000000001'' 200 tia))"
    by (simp add: insert_user_roles_def user_roles_constraints_def role_pair_def
        sam_signed_up_def portal_defs)
  note created =
    create_account_bootstrap
      [of "''a0000000-0000-4000-8000-000000000001''" 100 sam empty_database sam_signed_up,
       THEN conjunct1, THEN mp, OF ok]
  note failed =
    create_account_bootstrap
      [of "''a0000000-0000-4000-8000-000000000001''" 200 tia sam_signed_up sam_signed_up,
       THEN conjunct2, THEN mp, OF disjI2, OF clash]
  have names: "pf_full_name (bootstrap_profile 100 sam) = Some ''Sam Student''"
    "pf_full_name (bootstrap_profile 200 tia) = None"
    by (simp_all add: portal_defs)
  from created ok failed names show ?thesis
    by blast
qed

section \<open>The owner of a complaint\<close>

text \<open>
  C7, as the code has it. No policy, trigger or constraint of the migration fixes
  \<^verbatim>\<open>complaints.user_id\<close>. An update by an actor that is not an admin (and not the
  owner of the tables) leaves the owning account of every complaint as it was: such an
  actor reaches only its own complaints, and the new row has to be its own again. An admin
  can give a complaint to another account, as the example after the theorem shows.
\<close>

theorem complaint_owner_fixed_for_non_admin:
  assumes "s_role s \<noteq> Owner"
    and "\<not> has_role s db (s_uid s) Admin"
    and "update_complaints s now db where_clause set_clause = Inr db'"
  shows "map c_user_id (complaints db') = map c_user_id (complaints db)"
proof -
  define policy where
    "policy = (\<lambda>row. users_can_update_own_complaints s row \<or> admins_can_update_any_complaint s db)"
  define hit where "hit = (\<lambda>row. where_clause row \<and> (s_role s = Owner \<or> policy row))"
  define new where "new = (\<lambda>row. update_updated_at_column now (set_clause row))"
  from assms(1,3) have chk: "\<forall>row \<in> set (complaints db). hit row \<longrightarrow> policy (new row)"
    and db': "complaints db' = map (\<lambda>row. if hit row then new row else row) (complaints db)"
    by (auto simp: update_complaints_def Let_def policy_def hit_def new_def
        split: if_splits option.splits)
  have own: "policy row \<Longrightarrow> s_uid s = Some (c_user_id row)" for row
    using assms(2)
    by (auto simp: policy_def users_can_update_own_complaints_def
        admins_can_update_any_complaint_def)
  have "c_user_id (if hit row then new row else row) = c_user_id row"
    if "row \<in> set (complaints db)" for row
  proof (cases "hit row")
    case True
    with chk that have "policy (new row)" by blast
    then have "s_uid s = Some (c_user_id (new row))" by (rule own)
    moreover from True assms(1) have "s_uid s = Some (c_user_id row)"
      by (auto simp: hit_def dest: own)
    ultimately show ?thesis using True by simp
  next
    case False
    then show ?thesis by simp
  qed
  with db' show ?thesis by (simp add: comp_def cong: map_cong)
qed

theorem complaint_owner_fixed_for_non_admin_witness:
  "update_complaints (as_user sam) 3000 portal (\<lambda>row. c_id row = c_id broken_ac)
       (\<lambda>row. row\<lparr>c_status := Resolved\<rparr>) =
     Inr (portal\<lparr>complaints := [broken_ac\<lparr>c_status := Resolved, c_updated_at := 3000\<rparr>, wifi_down]\<rparr>) \<and>
   map c_user_id [broken_ac\<lparr>c_status := Resolved, c_updated_at := 3000\<rparr>, wifi_down] =
     map c_user_id (complaints portal)"
proof -
  have a: "s_role (as_user sam) \<noteq> Owner" by (simp add: as_user_def)
  have b: "\<not> has_role (as_user sam) portal (s_uid (as_user sam)) Admin"
    using portal_sam_no_admin by (simp add: as_user_def)
  have c: "update_complaints (as_user sam) 3000 portal (\<lambda>row. c_id row = c_id broken_ac)
       (\<lambda>row. row\<lparr>c_status := Resolved\<rparr>) =
     Inr (portal\<lparr>complaints := [broken_ac\<lparr>c_status := Resolved, c_updated_at := 3000\<rparr>, wifi_down]\<rparr>)"
    using b
    by (simp add: update_complaints_def Let_def users_can_update_own_complaints_def
        admins_can_update_any_complaint_def update_updated_at_column_def
        complaints_constraints_def int4_ok_def as_user_def portal_defs)
  from complaint_owner_fixed_for_non_admin [OF a b c] c show ?thesis by simp
qed

text \<open>
  The claim as it is written fails: Mia, an admin, moves Sam's complaint to her own
  account.
\<close>

theorem owner_changed_by_admin:
  "update_complaints (as_user mia) 3000 portal (\<lambda>row. c_id row = c_id broken_ac)
       (\<lambda>row. row\<lparr>c_user_id := au_id mia\<rparr>) =
     Inr (portal\<lparr>complaints := [broken_ac\<lparr>c_user_id := au_id mia, c_updated_at := 3000\<rparr>, wifi_down]\<rparr>) \<and>
   map c_user_id (complaints (portal\<lparr>complaints := [broken_ac\<lparr>c_user_id := au_id mia, c_updated_at := 3000\<rparr>, wifi_down]\<rparr>))
     \<noteq> map c_user_id (complaints portal)"
proof -
  have b: "has_role (as_user mia) portal (s_uid (as_user mia)) Admin"
    using portal_mia_admin by (simp add: as_user_def)
  show ?thesis
    using b
    by (simp add: update_complaints_def Let_def users_can_update_own_complaints_def
        admins_can_update_any_complaint_def update_updated_at_column_def
        complaints_constraints_def int4_ok_def as_user_def portal_defs)
qed

section \<open>The dashboard's list\<close>

text \<open>
  C8. For a signed-in user the list holds exactly the user's own complaints when
  \<^verbatim>\<open>isAdmin\<close> is false and exactly all complaints when it is true, each row as often
  as the table holds it, and in both cases the list is ordered by \<^verbatim>\<open>created_at\<close>,
  descending.
\<close>

theorem queryFn_rows_and_order:
  "mset (queryFn (Some u) isAdmin db) =
     (if isAdmin then mset (complaints db)
      else mset (filter (\<lambda>row. c_user_id row = u_id u) (complaints db))) \<and>
   sorted_wrt (\<lambda>a b. c_created_at a \<ge> c_created_at b) (queryFn (Some u) isAdmin db)"
proof -
  have scan: "scan_complaints (client_session u) db = complaints db"
    by (simp add: scan_complaints_def client_session_def)
  have srt: "sorted_wrt (\<lambda>a b. c_created_at a \<ge> c_created_at b) (order_desc c_created_at (complaints db))"
    using sorted_sort_key [of c_created_at "complaints db"]
    by (simp add: order_desc_def sorted_wrt_rev sorted_map)
  show ?thesis
    using srt by (auto simp: queryFn_def scan order_desc_def Let_def sorted_wrt_filter)
qed

theorem queryFn_rows_and_order_witness:
  "queryFn (Some \<lparr>u_id = au_id sam\<rparr>) False portal = [broken_ac] \<and>
   queryFn (Some \<lparr>u_id = au_id mia\<rparr>) True portal = [wifi_down, broken_ac] \<and>
   mset (queryFn (Some \<lparr>u_id = au_id mia\<rparr>) True portal) = mset (complaints portal) \<and>
   sorted_wrt (\<lambda>a b. c_created_at a \<ge> c_created_at b)
     (queryFn (Some \<lparr>u_id = au_id mia\<rparr>) True portal)"
proof -
  have a: "queryFn (Some \<lparr>u_id = au_id sam\<rparr>) False portal = [broken_ac]"
    by (simp add: queryFn_def scan_complaints_def client_session_def order_desc_def
        portal_defs)
  have b: "queryFn (Some \<lparr>u_id = au_id mia\<rparr>) True portal = [wifi_down, broken_ac]"
    by (simp add: queryFn_def scan_complaints_def client_session_def order_desc_def
        portal_defs)
  from queryFn_rows_and_order [of "\<lparr>u_id = au_id mia\<rparr>" True portal] a b
  show ?thesis by simp
qed

section \<open>Submitting a complaint with files\<close>

lemma upload_files_Cons:
  "upload_files e s c i (f # fs) db =
     (case storage_upload e s db ''complaint-attachments'' (attachment_fileName e c i f) f of
        Inl uploadError \<Rightarrow> (Some uploadError, db)
      | Inr db1 \<Rightarrow>
          upload_files e s c (Suc i) fs
            (case insert_complaint_attachments s db1 (attachment_row e c i f) of
               Inl _ \<Rightarrow> db1
             | Inr db2 \<Rightarrow> db2))"
  unfolding upload_files.simps Let_def attachment_fileName_def attachment_row_def getPublicUrl_def
  by (rule refl)




lemma storage_upload_Inr:
  assumes "storage_upload e s db bucket path f = Inr db1"
  shows "db1 = db\<lparr>storage_objects := storage_objects db @
                    [\<lparr>so_bucket_id = bucket, so_name = path, so_owner = s_uid s\<rparr>]\<rparr>"
    and "\<not> object_at db bucket path"
  using assms by (auto simp: storage_upload_def object_at_def Let_def split: if_splits)

lemma insert_complaint_attachments_dropped:
  "(case insert_complaint_attachments s db1 row of Inl _ \<Rightarrow> db1 | Inr db2 \<Rightarrow> db2) =
     (if isl (insert_complaint_attachments s db1 row) then db1
      else db1\<lparr>complaint_attachments := complaint_attachments db1 @ [row]\<rparr>)"
  by (simp add: insert_complaint_attachments_def)

lemma upload_files_append:
  "upload_files e s c i (xs @ ys) db =
     (case upload_files e s c i xs db of
        (Some uploadError, db1) \<Rightarrow> (Some uploadError, db1)
      | (None, db1) \<Rightarrow> upload_files e s c (i + length xs) ys db1)"
proof (induction xs arbitrary: i db)
  case Nil
  then show ?case by simp
next
  case (Cons x xs)
  show ?case
  proof (cases "storage_upload e s db ''complaint-attachments'' (attachment_fileName e c i x) x")
    case (Inl uploadError)
    then show ?thesis by (simp add: upload_files_Cons del: upload_files.simps)
  next
    case (Inr db1)
    then show ?thesis
      using Cons.IH [of "Suc i"]
      by (simp add: upload_files_Cons del: upload_files.simps split: prod.split option.split)
  qed
qed

lemma upload_files_storage_failure:
  assumes "upload_files e s c 0 before db = (None, dbk)"
    and "storage_upload e s dbk ''complaint-attachments''
           (attachment_fileName e c (length before) f) f = Inl uploadError"
  shows "upload_files e s c 0 (before @ f # remaining) db = (Some uploadError, dbk)"
  using assms by (simp add: upload_files_append upload_files_Cons del: upload_files.simps)

lemma object_at_upload_files:
  "object_at db bucket path \<Longrightarrow> object_at (snd (upload_files e s c i fs db)) bucket path"
proof (induction fs arbitrary: i db)
  case Nil
  then show ?case by simp
next
  case (Cons f fs)
  show ?case
  proof (cases "storage_upload e s db ''complaint-attachments'' (attachment_fileName e c i f) f")
    case (Inl uploadError)
    with Cons.prems show ?thesis by (simp add: upload_files_Cons del: upload_files.simps)
  next
    case (Inr db1)
    from storage_upload_Inr(1) [OF Inr] Cons.prems have "object_at db1 bucket path"
      by (auto simp: object_at_def)
    then have "object_at (case insert_complaint_attachments s db1 (attachment_row e c i f) of
                 Inl _ \<Rightarrow> db1 | Inr db2 \<Rightarrow> db2) bucket path"
      by (simp add: insert_complaint_attachments_dropped object_at_def)
    from Cons.IH [OF this] Inr show ?thesis
      by (simp add: upload_files_Cons del: upload_files.simps)
  qed
qed

lemma getPublicUrl_inj: "getPublicUrl e bucket p = getPublicUrl e bucket q \<Longrightarrow> p = q"
  by (simp add: getPublicUrl_def)

lemma upload_files_new_rows:
  assumes "r \<in> set (complaint_attachments (snd (upload_files e s c i fs db)))"
  shows "r \<in> set (complaint_attachments db) \<or>
         (\<exists>path. at_file_url r = getPublicUrl e ''complaint-attachments'' path \<and>
                 object_at (snd (upload_files e s c i fs db)) ''complaint-attachments'' path \<and>
                 \<not> object_at db ''complaint-attachments'' path)"
  using assms
proof (induction fs arbitrary: i db)
  case Nil
  then show ?case by simp
next
  case (Cons f fs)
  show ?case
  proof (cases "storage_upload e s db ''complaint-attachments'' (attachment_fileName e c i f) f")
    case (Inl uploadError)
    with Cons.prems show ?thesis by (simp add: upload_files_Cons del: upload_files.simps)
  next
    case (Inr db1)
    define db2 where "db2 = (case insert_complaint_attachments s db1 (attachment_row e c i f) of
                 Inl _ \<Rightarrow> db1 | Inr db2 \<Rightarrow> db2)"
    have step: "upload_files e s c i (f # fs) db = upload_files e s c (Suc i) fs db2"
      using Inr by (simp add: upload_files_Cons db2_def del: upload_files.simps)
    note up = storage_upload_Inr [OF Inr]
    have objs2: "storage_objects db2 = storage_objects db1"
      and rows2: "set (complaint_attachments db2) \<subseteq>
                    insert (attachment_row e c i f) (set (complaint_attachments db))"
      using up(1) by (auto simp: db2_def insert_complaint_attachments_dropped split: if_splits)
    have here: "object_at db2 ''complaint-attachments'' (attachment_fileName e c i f)"
      using up(1) objs2 by (simp add: object_at_def)
    have mono: "object_at db ''complaint-attachments'' p \<Longrightarrow>
                object_at db2 ''complaint-attachments'' p" for p
      using up(1) objs2 by (auto simp: object_at_def)
    let ?fin = "snd (upload_files e s c (Suc i) fs db2)"
    from Cons.prems step have "r \<in> set (complaint_attachments ?fin)" by simp
    from Cons.IH [OF this] consider
      (old) "r \<in> set (complaint_attachments db2)"
      | (new) path where "at_file_url r = getPublicUrl e ''complaint-attachments'' path"
          "object_at ?fin ''complaint-attachments'' path"
          "\<not> object_at db2 ''complaint-attachments'' path"
      by blast
    then show ?thesis
    proof cases
      case old
      with rows2 consider "r \<in> set (complaint_attachments db)" | "r = attachment_row e c i f"
        by blast
      then show ?thesis
      proof cases
        case 1
        then show ?thesis by simp
      next
        case 2
        have "at_file_url r =
                getPublicUrl e ''complaint-attachments'' (attachment_fileName e c i f)"
          using 2 by (simp add: attachment_row_def)
        moreover have "object_at ?fin ''complaint-attachments'' (attachment_fileName e c i f)"
          using here by (rule object_at_upload_files)
        ultimately show ?thesis using up(2) step by auto
      qed
    next
      case new
      with mono have "\<not> object_at db ''complaint-attachments'' path" by blast
      with new step show ?thesis by auto
    qed
  qed
qed

lemma insert_complaints_Inr:
  "insert_complaints s db row = Inr db0 \<Longrightarrow> db0 = db\<lparr>complaints := complaints db @ [row]\<rparr>"
  by (auto simp: insert_complaints_def split: if_splits option.splits)

lemma handleSubmit_files:
  assumes "insert_complaints (client_session u) db (submitted_complaint e u fm) = Inr db0"
    and "files fm \<noteq> []"
  shows "handleSubmit e (Some u) fm db =
           (case upload_files e (client_session u) (submitted_complaint e u fm) 0 (files fm) db0 of
              (None, fin) \<Rightarrow> (Some Success, fin)
            | (Some uploadError, fin) \<Rightarrow> (Some (Error uploadError), fin))"
  using assms
  by (simp add: handleSubmit_def submitted_complaint_def Let_def split: prod.split option.split)

lemmas upload_eval =
  handleSubmit_def storage_upload_def insert_complaints_def
  insert_complaint_attachments_def complaints_constraints_def int4_ok_def
  users_can_create_complaints_def users_can_add_attachments_to_own_complaints_def
  authenticated_users_can_upload_attachments_def scan_complaints_def sql_exists_def
  client_session_def attachment_fileName_def attachment_row_def attachment_object_def
  getPublicUrl_def submitted_complaint_def object_at_def
  browser_def sam_form_def sam_user_def digits.simps
  Let_def portal_defs

text \<open>
  C10. Take a submission whose complaint was created and whose files before \<open>f\<close> were
  stored, and let the storage write of \<open>f\<close> succeed and the insert of its row into
  \<^verbatim>\<open>complaint_attachments\<close> fail. The error of the insert appears nowhere: the
  submission ends as the loop over the remaining files ends when it starts from the state
  the upload left, so it is reported as a success when those files are stored. The object
  of \<open>f\<close> is in the bucket at the end, and no row of the table refers to it but rows that
  were there before the submission.
\<close>

theorem attachment_insert_error_unchecked:
  assumes complaint:
      "insert_complaints (client_session u) db (submitted_complaint e u fm) = Inr db0"
    and files: "files fm = before @ f # remaining"
    and before:
      "upload_files e (client_session u) (submitted_complaint e u fm) 0 before db0 = (None, dbk)"
    and up:
      "storage_upload e (client_session u) dbk ''complaint-attachments''
         (attachment_fileName e (submitted_complaint e u fm) (length before) f) f = Inr db1"
    and ins:
      "insert_complaint_attachments (client_session u) db1
         (attachment_row e (submitted_complaint e u fm) (length before) f) = Inl insertError"
  shows "handleSubmit e (Some u) fm db =
           (case upload_files e (client_session u) (submitted_complaint e u fm)
                   (Suc (length before)) remaining db1 of
              (None, fin) \<Rightarrow> (Some Success, fin)
            | (Some uploadError, fin) \<Rightarrow> (Some (Error uploadError), fin)) \<and>
         (\<forall>fin. upload_files e (client_session u) (submitted_complaint e u fm)
                   (Suc (length before)) remaining db1 = (None, fin) \<longrightarrow>
                handleSubmit e (Some u) fm db = (Some Success, fin)) \<and>
         object_at (snd (handleSubmit e (Some u) fm db)) ''complaint-attachments''
           (attachment_fileName e (submitted_complaint e u fm) (length before) f) \<and>
         (\<forall>r \<in> set (complaint_attachments (snd (handleSubmit e (Some u) fm db))).
            at_file_url r =
              getPublicUrl e ''complaint-attachments''
                (attachment_fileName e (submitted_complaint e u fm) (length before) f) \<longrightarrow>
            r \<in> set (complaint_attachments db))"
proof -
  let ?s = "client_session u"
  let ?c = "submitted_complaint e u fm"
  let ?p = "attachment_fileName e ?c (length before) f"
  let ?rest = "upload_files e ?s ?c (Suc (length before)) remaining db1"
  have loop: "upload_files e ?s ?c 0 (files fm) db0 = ?rest"
    using before up ins
    by (simp add: files upload_files_append upload_files_Cons del: upload_files.simps)
  have report: "handleSubmit e (Some u) fm db =
           (case ?rest of
              (None, fin) \<Rightarrow> (Some Success, fin)
            | (Some uploadError, fin) \<Rightarrow> (Some (Error uploadError), fin))"
    using handleSubmit_files [OF complaint] loop by (simp add: files)
  then have fin: "snd (handleSubmit e (Some u) fm db) = snd ?rest"
    by (simp split: prod.split option.split)
  note stored = storage_upload_Inr [OF up]
  have here: "object_at db1 ''complaint-attachments'' ?p"
    using stored(1) by (simp add: object_at_def)
  then have obj: "object_at (snd ?rest) ''complaint-attachments'' ?p"
    by (rule object_at_upload_files)
  have rows: "r \<in> set (complaint_attachments db)"
    if r: "r \<in> set (complaint_attachments (snd ?rest))"
      and url: "at_file_url r = getPublicUrl e ''complaint-attachments'' ?p" for r
  proof -
    from upload_files_new_rows [OF r] url here have "r \<in> set (complaint_attachments db1)"
      by (auto dest: getPublicUrl_inj)
    with stored(1) have "r \<in> set (complaint_attachments (snd (upload_files e ?s ?c 0 before db0)))"
      by (simp add: before)
    from upload_files_new_rows [OF this] url stored(2)
    have "r \<in> set (complaint_attachments db0)"
      by (auto simp: before dest: getPublicUrl_inj)
    with insert_complaints_Inr [OF complaint] show ?thesis by simp
  qed
  have a: "object_at (snd (handleSubmit e (Some u) fm db)) ''complaint-attachments'' ?p"
    unfolding fin by (rule obj)
  have b: "\<forall>r \<in> set (complaint_attachments (snd (handleSubmit e (Some u) fm db))).
            at_file_url r = getPublicUrl e ''complaint-attachments'' ?p \<longrightarrow>
            r \<in> set (complaint_attachments db)"
    unfolding fin using rows by blast
  from report have ok: "\<forall>fin. ?rest = (None, fin) \<longrightarrow>
                          handleSubmit e (Some u) fm db = (Some Success, fin)"
    by simp
  from report ok a b show ?thesis by (intro conjI)
qed

theorem attachment_insert_error_unchecked_witness:
  "insert_complaint_attachments (client_session sam_user)
       (portal\<lparr>complaints :=
                 [broken_ac, wifi_down,
                  submitted_complaint browser sam_user (sam_form [archive_pdf, photo_png])],
               storage_objects :=
                 [attachment_object browser (client_session sam_user)
                    (submitted_complaint browser sam_user (sam_form [archive_pdf, photo_png]))
                    0 archive_pdf]\<rparr>)
       (attachment_row browser
          (submitted_complaint browser sam_user (sam_form [archive_pdf, photo_png]))
          0 archive_pdf) = Inl Numeric_value_out_of_range \<and>
   fst (handleSubmit browser (Some sam_user) (sam_form [archive_pdf, photo_png]) portal) =
     Some Success \<and>
   object_at (snd (handleSubmit browser (Some sam_user) (sam_form [archive_pdf, photo_png]) portal))
     ''complaint-attachments''
     (attachment_fileName browser
        (submitted_complaint browser sam_user (sam_form [archive_pdf, photo_png]))
        0 archive_pdf) \<and>
   complaint_attachments
       (snd (handleSubmit browser (Some sam_user) (sam_form [archive_pdf, photo_png]) portal)) =
     [attachment_row browser
        (submitted_complaint browser sam_user (sam_form [archive_pdf, photo_png]))
        1 photo_png]"
proof -
  let ?fm = "sam_form [archive_pdf, photo_png]"
  let ?c = "submitted_complaint browser sam_user ?fm"
  let ?db0 = "portal\<lparr>complaints := [broken_ac, wifi_down, ?c]\<rparr>"
  let ?db1 = "portal\<lparr>complaints := [broken_ac, wifi_down, ?c],
                     storage_objects :=
                       [attachment_object browser (client_session sam_user) ?c 0 archive_pdf]\<rparr>"
  have complaint: "insert_complaints (client_session sam_user) portal ?c = Inr ?db0"
    by (simp add: upload_eval archive_pdf_def photo_png_def)
  have files: "files ?fm = [] @ archive_pdf # [photo_png]"
    by (simp add: sam_form_def)
  have before: "upload_files browser (client_session sam_user) ?c 0 [] ?db0 = (None, ?db0)"
    by simp
  have up: "storage_upload browser (client_session sam_user) ?db0 ''complaint-attachments''
              (attachment_fileName browser ?c (length ([] :: js_file list)) archive_pdf)
              archive_pdf = Inr ?db1"
    by (simp add: upload_eval archive_pdf_def photo_png_def)
  have ins: "insert_complaint_attachments (client_session sam_user) ?db1
               (attachment_row browser ?c (length ([] :: js_file list)) archive_pdf) =
             Inl Numeric_value_out_of_range"
    by (simp add: upload_eval archive_pdf_def photo_png_def)
  have run: "handleSubmit browser (Some sam_user) ?fm portal =
               (Some Success,
                ?db1\<lparr>storage_objects :=
                        [attachment_object browser (client_session sam_user) ?c 0 archive_pdf,
                         attachment_object browser (client_session sam_user) ?c 1 photo_png],
                      complaint_attachments := [attachment_row browser ?c 1 photo_png]\<rparr>)"
    by (simp add: upload_eval archive_pdf_def photo_png_def)
  note stored =
    attachment_insert_error_unchecked
      [OF complaint files before up ins, THEN conjunct2, THEN conjunct2, THEN conjunct1]
  from stored have obj:
    "object_at (snd (handleSubmit browser (Some sam_user) ?fm portal)) ''complaint-attachments''
       (attachment_fileName browser ?c 0 archive_pdf)"
    by simp
  from ins have ins0:
    "insert_complaint_attachments (client_session sam_user) ?db1
       (attachment_row browser ?c 0 archive_pdf) = Inl Numeric_value_out_of_range"
    by simp
  have reported: "fst (handleSubmit browser (Some sam_user) ?fm portal) = Some Success"
    by (simp add: run)
  have rows: "complaint_attachments (snd (handleSubmit browser (Some sam_user) ?fm portal)) =
                [attachment_row browser ?c 1 photo_png]"
    by (simp add: run)
  from ins0 reported obj rows show ?thesis
    by (intro conjI)
qed

text \<open>
  C9 at a submission of two files. The first file has 2 GiB: the blob store takes it, and
  the insert of its row fails, since \<^verbatim>\<open>file_size\<close> is an \<^verbatim>\<open>INT\<close>; the result
  of that insert is not looked at. The blob store rejects the second file, which ends the
  loop with that error. One object is stored and no row of \<^verbatim>\<open>complaint_attachments\<close>
  remains, where the claim expects the row of the first file.
\<close>

theorem earlier_row_missing_after_storage_failure:
  "handleSubmit browser (Some sam_user) (sam_form [archive_pdf, huge_png]) portal =
     (Some (Error Payload_rejected),
      portal\<lparr>complaints :=
               [broken_ac, wifi_down,
                submitted_complaint browser sam_user (sam_form [archive_pdf, huge_png])],
             storage_objects :=
               [attachment_object browser (client_session sam_user)
                  (submitted_complaint browser sam_user (sam_form [archive_pdf, huge_png]))
                  0 archive_pdf]\<rparr>) \<and>
   insert_complaint_attachments (client_session sam_user)
       (portal\<lparr>complaints :=
                 [broken_ac, wifi_down,
                  submitted_complaint browser sam_user (sam_form [archive_pdf, huge_png])],
               storage_objects :=
                 [attachment_object browser (client_session sam_user)
                    (submitted_complaint browser sam_user (sam_form [archive_pdf, huge_png]))
                    0 archive_pdf]\<rparr>)
       (attachment_row browser
          (submitted_complaint browser sam_user (sam_form [archive_pdf, huge_png]))
          0 archive_pdf) = Inl Numeric_value_out_of_range \<and>
   complaint_attachments
     (snd (handleSubmit browser (Some sam_user) (sam_form [archive_pdf, huge_png]) portal)) = []"
  by (simp add: upload_eval archive_pdf_def huge_png_def)

section \<open>Who can delete a stored attachment\<close>

lemma storage_remove_only_own:
  assumes "obj \<in> set (storage_objects db)"
    and "obj \<notin> set (storage_objects (storage_remove s db bucket path))"
    and "s_role s \<noteq> Owner"
  shows "so_bucket_id obj = ''complaint-attachments'' \<and>
         (\<exists>uid. s_uid s = Some uid \<and> array_first (foldername (so_name obj)) = Some uid)"
  using assms
  by (auto simp: storage_remove_def users_can_delete_own_attachments_def
      split: option.splits)

text \<open>
  C1 at Sam's submission of one file. \<^verbatim>\<open>handleSubmit\<close> stores the file under the
  identifier of the new complaint, not under Sam's account identifier, so the first
  segment of the path is not Sam's identifier, "Users can delete own attachments" does not
  admit Sam for the object Sam uploaded, and the removal by Sam deletes nothing.
\<close>

theorem attachment_path_keyed_by_complaint:
  "handleSubmit browser (Some sam_user) (sam_form [photo_png]) portal =
     (Some Success,
      portal\<lparr>complaints :=
               [broken_ac, wifi_down,
                submitted_complaint browser sam_user (sam_form [photo_png])],
             storage_objects :=
               [\<lparr>so_bucket_id = ''complaint-attachments'',
                 so_name = ''e0000000-0000-4000-8000-000000000000/1700000000000.png'',
                 so_owner = Some (au_id sam)\<rparr>],
             complaint_attachments :=
               [attachment_row browser
                  (submitted_complaint browser sam_user (sam_form [photo_png])) 0 photo_png]\<rparr>) \<and>
   array_first (foldername ''e0000000-0000-4000-8000-000000000000/1700000000000.png'') =
     Some (c_id (submitted_complaint browser sam_user (sam_form [photo_png]))) \<and>
   array_first (foldername ''e0000000-0000-4000-8000-000000000000/1700000000000.png'') \<noteq>
     Some (u_id sam_user) \<and>
   \<not> users_can_delete_own_attachments (client_session sam_user)
       \<lparr>so_bucket_id = ''complaint-attachments'',
        so_name = ''e0000000-0000-4000-8000-000000000000/1700000000000.png'',
        so_owner = Some (au_id sam)\<rparr> \<and>
   storage_objects
     (storage_remove (client_session sam_user)
        (snd (handleSubmit browser (Some sam_user) (sam_form [photo_png]) portal))
        ''complaint-attachments'' ''e0000000-0000-4000-8000-000000000000/1700000000000.png'') =
     [\<lparr>so_bucket_id = ''complaint-attachments'',
       so_name = ''e0000000-0000-4000-8000-000000000000/1700000000000.png'',
       so_owner = Some (au_id sam)\<rparr>]"
  by (simp add: upload_eval photo_png_def users_can_delete_own_attachments_def
      storage_remove_def
      foldername_def array_first_def)

end
